theory Spec2Isabelle
  imports Complex_Main
begin

section \<open>The calculator of calculator.cpp\<close>

text \<open>
  The program reads a line, splits it into tokens (\<open>tokenise\<close>) and evaluates the
  tokens with two containers (\<open>expression\<close>): a \<^verbatim>\<open>std::queue<double>\<close> of operands
  and a \<^verbatim>\<open>std::stack<Token>\<close> of operators and brackets. The global
  \<^verbatim>\<open>std::map<char, OpContract> opContracts\<close> is read by both \<open>evaluate\<close> (with
  \<^verbatim>\<open>find\<close>) and \<open>expression\<close> (with \<^verbatim>\<open>operator[]\<close>).

  A \<^verbatim>\<open>double\<close> is modelled by the real number it denotes. Rounding, overflow,
  infinities and NaN have no counterpart here; every value computed in the theorems
  below is a small integer, on which the arithmetic of doubles is exact.
\<close>

type_synonym double = real

subsection \<open>Operator contracts\<close>

text \<open>
  \<^verbatim>\<open>struct OpContract { EvaluateFunc func; int precedence; bool leftAssociativity; }\<close>.
  The field \<open>func\<close> is a function pointer: \<open>Some f\<close> is a pointer to the function
  \<open>f\<close>, \<open>None\<close> a pointer that cannot be called.
\<close>

record OpContract =
  func :: "(double \<Rightarrow> double \<Rightarrow> double) option"
  precedence :: int
  leftAssociativity :: bool

type_synonym contracts = "char \<rightharpoonup> OpContract"

text \<open>
  \<^verbatim>\<open>pow\<close> of \<^verbatim>\<open><cmath>\<close>, for a positive base, where it is the real power. The
  library's special cases (zero or negative base, poles, NaN) are outside the model.
\<close>

definition pow :: "double \<Rightarrow> double \<Rightarrow> double" where
  "pow a b = a powr b"

text \<open>
  The table as initialised at lines 21-31. Division is that of the reals, which is the
  quotient of the doubles only for a divisor other than zero.
\<close>

definition opContracts :: contracts where
  "opContracts =
     [CHR ''+'' \<mapsto> \<lparr>func = Some (\<lambda>a b. a + b), precedence = 1, leftAssociativity = True\<rparr>,
      CHR ''-'' \<mapsto> \<lparr>func = Some (\<lambda>a b. a - b), precedence = 1, leftAssociativity = True\<rparr>,
      CHR ''*'' \<mapsto> \<lparr>func = Some (\<lambda>a b. a * b), precedence = 2, leftAssociativity = True\<rparr>,
      CHR ''/'' \<mapsto> \<lparr>func = Some (\<lambda>a b. a / b), precedence = 2, leftAssociativity = True\<rparr>,
      CHR ''^'' \<mapsto> \<lparr>func = Some (\<lambda>a b. pow a b), precedence = 3, leftAssociativity = False\<rparr>]"

text \<open>
  \<^verbatim>\<open>opContracts[c]\<close>: \<^verbatim>\<open>std::map::operator[]\<close> returns the contract stored
  under \<open>c\<close>, and when there is none it first inserts a default-constructed one. The
  default constructor \<^verbatim>\<open>OpContract() {}\<close> initialises no member, so what it holds is
  not determined by the program: the model takes it as the parameter \<open>junk\<close>, one
  contract for each symbol.
\<close>

definition subscript :: "(char \<Rightarrow> OpContract) \<Rightarrow> contracts \<Rightarrow> char \<Rightarrow> OpContract \<times> contracts" where
  "subscript junk tbl c =
     (case tbl c of
        Some k \<Rightarrow> (k, tbl)
      | None \<Rightarrow> (junk c, tbl(c \<mapsto> junk c)))"

subsection \<open>Tokens and outcomes\<close>

text \<open>
  \<^verbatim>\<open>struct Token { TokenType type; char symbol; double value; }\<close>: the tokeniser
  sets \<open>value\<close> only for a \<open>NUMBER\<close> and \<open>symbol\<close> only for an \<open>OPERATOR\<close>.
\<close>

datatype Token = LEFT_BRACKET | RIGHT_BRACKET | NUMBER double | OPERATOR char

text \<open>
  The ways a run ends without a value. The first four are the program's calls of
  \<^verbatim>\<open>exit(EXIT_FAILURE)\<close>, after the messages "Invalid token", "Operator c is not
  supported", "Mismatched parenthesis" and "Mismatched operands".
  \<open>UndefinedBehaviour\<close> is no error of the program: it marks the places where the
  C++ has undefined behaviour (\<^verbatim>\<open>front()\<close> or \<^verbatim>\<open>pop()\<close> of an empty queue, a call
  through a pointer that was never set, a read of a member that was never set).
\<close>

datatype error =
    InvalidNumber
  | UnsupportedOperator char
  | MismatchedParenthesis
  | InsufficientOperands
  | UndefinedBehaviour

subsection \<open>evaluate (lines 89-99)\<close>

definition evaluate :: "contracts \<Rightarrow> double \<Rightarrow> char \<Rightarrow> double \<Rightarrow> error + double" where
  "evaluate tbl left op right =
     (case tbl op of
        Some k \<Rightarrow> (case func k of Some f \<Rightarrow> Inr (f left right) | None \<Rightarrow> Inl UndefinedBehaviour)
      | None \<Rightarrow> Inl (UnsupportedOperator op))"

subsection \<open>expression (lines 101-192)\<close>

text \<open>
  The operand queue is a list with its front at the head: \<^verbatim>\<open>push\<close> appends at the
  end, \<^verbatim>\<open>front\<close> and \<^verbatim>\<open>pop\<close> work at the head. The operator stack is a list
  with its top at the head.

  \<^verbatim>\<open>left = output.front(); output.pop(); right = output.front(); output.pop();\<close>
  with no check of the size, as at lines 126-129 and 150-153.
\<close>

definition pop_operands :: "double list \<Rightarrow> error + (double \<times> double \<times> double list)" where
  "pop_operands output =
     (case output of
        left # right # rest \<Rightarrow> Inr (left, right, rest)
      | _ \<Rightarrow> Inl UndefinedBehaviour)"

text \<open>The two pops, \<open>evaluate\<close>, and the push of its result.\<close>

definition apply_operator :: "contracts \<Rightarrow> char \<Rightarrow> double list \<Rightarrow> error + double list" where
  "apply_operator tbl op output =
     (case pop_operands output of
        Inl e \<Rightarrow> Inl e
      | Inr (left, right, rest) \<Rightarrow>
          (case evaluate tbl left op right of
             Inl e \<Rightarrow> Inl e
           | Inr v \<Rightarrow> Inr (rest @ [v])))"

text \<open>
  The \<^verbatim>\<open>while (!operators.empty())\<close> loop of an operator token with symbol
  \<open>symbol\<close> (lines 112-136). Both contracts are fetched with \<^verbatim>\<open>operator[]\<close>, the
  token's own one before the type of the stack's top is looked at.
\<close>

fun reduce :: "(char \<Rightarrow> OpContract) \<Rightarrow> char \<Rightarrow> double list \<Rightarrow> Token list \<Rightarrow> contracts
    \<Rightarrow> error + (double list \<times> Token list \<times> contracts)" where
  "reduce junk symbol output [] tbl = Inr (output, [], tbl)"
| "reduce junk symbol output (op2 # ops) tbl =
     (case subscript junk tbl symbol of (contract1, tbl1) \<Rightarrow>
        (case op2 of
           OPERATOR s2 \<Rightarrow>
             (case subscript junk tbl1 s2 of (contract2, tbl2) \<Rightarrow>
                if (leftAssociativity contract1 \<and> precedence contract1 \<le> precedence contract2) \<or>
                   (\<not> leftAssociativity contract1 \<and> precedence contract1 < precedence contract2)
                then (case apply_operator tbl2 s2 output of
                        Inl e \<Rightarrow> Inl e
                      | Inr output' \<Rightarrow> reduce junk symbol output' ops tbl2)
                else Inr (output, op2 # ops, tbl2))
         | _ \<Rightarrow> Inr (output, op2 # ops, tbl1)))"

text \<open>
  The loop of a right bracket and the check after it (lines 144-164). Only operators
  and left brackets are ever pushed; for any other token on the stack the loop would
  read a \<open>symbol\<close> that was never set.
\<close>

fun right_bracket :: "contracts \<Rightarrow> double list \<Rightarrow> Token list \<Rightarrow> error + (double list \<times> Token list)" where
  "right_bracket tbl output [] = Inl MismatchedParenthesis"
| "right_bracket tbl output (LEFT_BRACKET # ops) = Inr (output, ops)"
| "right_bracket tbl output (OPERATOR s # ops) =
     (case apply_operator tbl s output of
        Inl e \<Rightarrow> Inl e
      | Inr output' \<Rightarrow> right_bracket tbl output' ops)"
| "right_bracket tbl output (_ # ops) = Inl UndefinedBehaviour"

text \<open>The body of the \<^verbatim>\<open>for\<close> loop over the tokens (lines 106-166).\<close>

fun step :: "(char \<Rightarrow> OpContract) \<Rightarrow> Token \<Rightarrow> double list \<times> Token list \<times> contracts
    \<Rightarrow> error + (double list \<times> Token list \<times> contracts)" where
  "step junk (NUMBER v) (output, operators, tbl) = Inr (output @ [v], operators, tbl)"
| "step junk (OPERATOR symbol) (output, operators, tbl) =
     (case reduce junk symbol output operators tbl of
        Inl e \<Rightarrow> Inl e
      | Inr (output', operators', tbl') \<Rightarrow> Inr (output', OPERATOR symbol # operators', tbl'))"
| "step junk LEFT_BRACKET (output, operators, tbl) = Inr (output, LEFT_BRACKET # operators, tbl)"
| "step junk RIGHT_BRACKET (output, operators, tbl) =
     (case right_bracket tbl output operators of
        Inl e \<Rightarrow> Inl e
      | Inr (output', operators') \<Rightarrow> Inr (output', operators', tbl))"

fun scan :: "(char \<Rightarrow> OpContract) \<Rightarrow> Token list \<Rightarrow> double list \<times> Token list \<times> contracts
    \<Rightarrow> error + (double list \<times> Token list \<times> contracts)" where
  "scan junk [] st = Inr st"
| "scan junk (token # tokens) st =
     (case step junk token st of
        Inl e \<Rightarrow> Inl e
      | Inr st' \<Rightarrow> scan junk tokens st')"

text \<open>
  The loop after the scan (lines 168-189): a bracket is a mismatch, and the size of the
  queue is checked before the two pops.
\<close>

fun remaining :: "contracts \<Rightarrow> double list \<Rightarrow> Token list \<Rightarrow> error + double list" where
  "remaining tbl output [] = Inr output"
| "remaining tbl output (token # ops) =
     (if token = LEFT_BRACKET \<or> token = RIGHT_BRACKET then Inl MismatchedParenthesis
      else if length output < 2 then Inl InsufficientOperands
      else (case token of
              OPERATOR s \<Rightarrow>
                (case apply_operator tbl s output of
                   Inl e \<Rightarrow> Inl e
                 | Inr output' \<Rightarrow> remaining tbl output' ops)
            | _ \<Rightarrow> Inl UndefinedBehaviour))"

text \<open>
  \<open>expression\<close> starts from an empty queue and an empty stack and returns
  \<^verbatim>\<open>output.front()\<close>, whatever the size of the queue. The table is global, so the
  model takes it and returns it with the value.
\<close>

definition expression :: "(char \<Rightarrow> OpContract) \<Rightarrow> contracts \<Rightarrow> Token list \<Rightarrow> error + (double \<times> contracts)" where
  "expression junk tbl tokens =
     (case scan junk tokens ([], [], tbl) of
        Inl e \<Rightarrow> Inl e
      | Inr (output, operators, tbl') \<Rightarrow>
          (case remaining tbl' output operators of
             Inl e \<Rightarrow> Inl e
           | Inr [] \<Rightarrow> Inl UndefinedBehaviour
           | Inr (v # _) \<Rightarrow> Inr (v, tbl')))"

subsection \<open>Formatted extraction of a double\<close>

text \<open>
  Modelled from the spec: \<^verbatim>\<open>stream >> t.value\<close> is the extraction operator of the C++
  standard library, which is not code of this repository. The spec describes it as
  parsing greedily a floating-point literal: sign, digits, optional fractional part,
  optional exponent. The functions below accumulate the longest prefix of that shape
  (an exponent mark is taken only after a digit of the mantissa) and convert it; the
  conversion fails when the mantissa has no digit or an exponent mark has no digit
  after it. They return the value, if the conversion succeeded, and what is left of
  the stream.
\<close>

definition isdigit :: "char \<Rightarrow> bool" where
  "isdigit c = (c \<in> set ''0123456789'')"

definition digit_value :: "char \<Rightarrow> nat" where
  "digit_value c = of_char c - 48"

definition decimal :: "string \<Rightarrow> nat" where
  "decimal ds = foldl (\<lambda>n c. 10 * n + digit_value c) 0 ds"

definition read_sign :: "string \<Rightarrow> bool \<times> string" where
  "read_sign s =
     (case s of
        [] \<Rightarrow> (False, s)
      | c # r \<Rightarrow> if c = CHR ''-'' then (True, r) else if c = CHR ''+'' then (False, r) else (False, s))"

definition read_digits :: "string \<Rightarrow> string \<times> string" where
  "read_digits s = (takeWhile isdigit s, dropWhile isdigit s)"

definition read_fraction :: "string \<Rightarrow> string \<times> string" where
  "read_fraction s =
     (case s of
        [] \<Rightarrow> ([], s)
      | c # r \<Rightarrow> if c = CHR ''.'' then read_digits r else ([], s))"

text \<open>
  \<open>None\<close>: no exponent mark. \<open>Some (None, rest)\<close>: a mark (and a sign, if any)
  with no digit after it. \<open>Some (Some e, rest)\<close>: the exponent \<open>e\<close>.
\<close>

definition read_exponent :: "string \<Rightarrow> (int option \<times> string) option" where
  "read_exponent s =
     (case s of
        [] \<Rightarrow> None
      | c # r \<Rightarrow>
          if c = CHR ''e'' \<or> c = CHR ''E'' then
            (case read_sign r of (negative, r1) \<Rightarrow>
               (case read_digits r1 of (ds, rest) \<Rightarrow>
                  Some (if ds = [] then None
                        else Some (if negative then - int (decimal ds) else int (decimal ds)), rest)))
          else None)"

definition scaled :: "string \<Rightarrow> string \<Rightarrow> int \<Rightarrow> double" where
  "scaled int_part frac_part exponent =
     real (decimal (int_part @ frac_part)) * 10 powi (exponent - int (length frac_part))"

definition read_unsigned :: "string \<Rightarrow> double option \<times> string" where
  "read_unsigned s =
     (case read_digits s of (int_part, s2) \<Rightarrow>
        (case read_fraction s2 of (frac_part, s3) \<Rightarrow>
           if int_part = [] \<and> frac_part = [] then (None, s3)
           else (case read_exponent s3 of
                   None \<Rightarrow> (Some (scaled int_part frac_part 0), s3)
                 | Some (None, s4) \<Rightarrow> (None, s4)
                 | Some (Some exponent, s4) \<Rightarrow> (Some (scaled int_part frac_part exponent), s4))))"

definition extract_double :: "string \<Rightarrow> double option \<times> string" where
  "extract_double s =
     (case read_sign s of (negative, s1) \<Rightarrow>
        (case read_unsigned s1 of
           (None, rest) \<Rightarrow> (None, rest)
         | (Some v, rest) \<Rightarrow> (Some (if negative then - v else v), rest)))"

text \<open>An extraction that starts at a sign or a digit consumes that character.\<close>

lemma length_read_sign: "length (snd (read_sign s)) \<le> length s"
  by (simp add: read_sign_def split: list.splits)

lemma length_read_fraction: "length (snd (read_fraction s)) \<le> length s"
  using length_dropWhile_le [of isdigit "tl s"]
  by (auto simp add: read_fraction_def read_digits_def split: list.splits)

lemma length_read_exponent: "read_exponent s = Some (e, rest) \<Longrightarrow> length rest \<le> length s"
  using length_dropWhile_le [of isdigit "snd (read_sign (tl s))"] length_read_sign [of "tl s"]
  by (auto simp add: read_exponent_def read_digits_def split: list.splits if_splits prod.splits)

lemma length_read_unsigned:
  "length (snd (read_unsigned s)) \<le> length (dropWhile isdigit s)"
  using length_read_fraction [of "dropWhile isdigit s"]
  by (auto simp add: read_unsigned_def read_digits_def
      split: prod.splits option.splits dest!: length_read_exponent)

lemma extract_double_shorter:
  assumes "(v, rest') = extract_double (c # r)"
    and "c = CHR ''+'' \<or> c = CHR ''-'' \<or> isdigit c"
  shows "length rest' \<le> length r"
proof -
  have rest: "snd (extract_double s) = snd (read_unsigned (snd (read_sign s)))" for s
    by (simp add: extract_double_def split: prod.splits option.splits)
  have "length (dropWhile isdigit (snd (read_sign (c # r)))) \<le> length r"
    using assms(2) length_dropWhile_le [of isdigit r]
    by (auto simp add: read_sign_def)
  then have "length (snd (extract_double (c # r))) \<le> length r"
    using length_read_unsigned [of "snd (read_sign (c # r))"] by (simp add: rest)
  then show ?thesis
    by (simp flip: assms(1))
qed

subsection \<open>tokenise (lines 41-87)\<close>

text \<open>\<^verbatim>\<open>tokens.back().type == NUMBER\<close>.\<close>

fun is_NUMBER :: "Token \<Rightarrow> bool" where
  "is_NUMBER (NUMBER v) = True"
| "is_NUMBER _ = False"

text \<open>
  The \<^verbatim>\<open>while (stream.good())\<close> loop, on what is left of the stream and the tokens
  pushed so far. At the end of the stream \<^verbatim>\<open>peek\<close> sets \<^verbatim>\<open>eofbit\<close> and the loop
  breaks. Only the branch of a sign checks \<^verbatim>\<open>stream.fail()\<close>; in the branch of a
  digit a failed extraction stores 0 (C++11), the token is pushed, and the loop ends
  because the stream is no longer good.
\<close>

function tokenise_loop :: "string \<Rightarrow> Token list \<Rightarrow> error + Token list" where
  "tokenise_loop [] tokens = Inr tokens"
| "tokenise_loop (peek # rest) tokens =
     (if peek = CHR '' '' then tokenise_loop rest tokens
      else if peek = CHR ''('' then tokenise_loop rest (tokens @ [LEFT_BRACKET])
      else if peek = CHR '')'' then tokenise_loop rest (tokens @ [RIGHT_BRACKET])
      else if (peek = CHR ''+'' \<or> peek = CHR ''-'') \<and> (tokens = [] \<or> \<not> is_NUMBER (last tokens)) then
        (case extract_double (peek # rest) of
           (None, rest') \<Rightarrow> Inl InvalidNumber
         | (Some v, rest') \<Rightarrow> tokenise_loop rest' (tokens @ [NUMBER v]))
      else if isdigit peek then
        (case extract_double (peek # rest) of
           (None, rest') \<Rightarrow> Inr (tokens @ [NUMBER 0])
         | (Some v, rest') \<Rightarrow> tokenise_loop rest' (tokens @ [NUMBER v]))
      else tokenise_loop rest (tokens @ [OPERATOR peek]))"
  by pat_completeness auto
termination
  by (relation "measure (\<lambda>(s, tokens). length s)")
    (auto dest: extract_double_shorter simp add: less_Suc_eq_le)

definition tokenise :: "string \<Rightarrow> error + Token list" where
  "tokenise input = tokenise_loop input []"

subsection \<open>main (lines 194-212)\<close>

text \<open>
  One turn of the loop of \<open>main\<close> on a line that was read: \<open>None\<close> when the line is
  skipped (\<^verbatim>\<open>input.empty()\<close>), otherwise the outcome of \<open>tokenise\<close> and
  \<open>expression\<close>: the value printed, with the table as it is left for the next line,
  or the way the run ends.
\<close>

definition main_line :: "(char \<Rightarrow> OpContract) \<Rightarrow> contracts \<Rightarrow> string
    \<Rightarrow> (error + (double \<times> contracts)) option" where
  "main_line junk tbl input =
     (if input = [] then None
      else Some (case tokenise input of
                   Inl e \<Rightarrow> Inl e
                 | Inr tokens \<Rightarrow> expression junk tbl tokens))"

text \<open>
  A default-constructed contract whose pointer cannot be called, for the concrete runs
  that need one.
\<close>

definition no_junk :: "char \<Rightarrow> OpContract" where
  "no_junk c = \<lparr>func = None, precedence = 0, leftAssociativity = False\<rparr>"

text \<open>The tokens that \<open>expression\<close> pushes on the operator stack.\<close>

fun pushed :: "Token \<Rightarrow> bool" where
  "pushed LEFT_BRACKET = True"
| "pushed (OPERATOR c) = True"
| "pushed _ = False"

section \<open>Properties of the loops\<close>

text \<open>The two pops and \<open>evaluate\<close> end a run in two ways only.\<close>

lemma apply_operator_error:
  "apply_operator tbl s out = Inl e \<Longrightarrow> e = UndefinedBehaviour \<or> e = UnsupportedOperator s"
  by (auto simp add: apply_operator_def pop_operands_def evaluate_def
      split: list.splits option.splits sum.splits)

text \<open>A right bracket over a stack that holds no left bracket never succeeds.\<close>

lemma right_bracket_without_left:
  "LEFT_BRACKET \<notin> set ops \<Longrightarrow>
   \<exists>e. right_bracket tbl out ops = Inl e \<and>
       (e = MismatchedParenthesis \<or> e = UndefinedBehaviour \<or> (\<exists>c. e = UnsupportedOperator c))"
proof (induction tbl out ops rule: right_bracket.induct)
  case (3 tbl out s ops)
  show ?case
  proof (cases "apply_operator tbl s out")
    case (Inl e)
    then show ?thesis
      using apply_operator_error [OF Inl] by auto
  next
    case (Inr out')
    then show ?thesis
      using 3 by simp
  qed
qed simp_all

text \<open>The loop after the scan never succeeds on a stack that holds a bracket.\<close>

lemma remaining_with_bracket:
  "LEFT_BRACKET \<in> set ops \<or> RIGHT_BRACKET \<in> set ops \<Longrightarrow> \<exists>e. remaining tbl out ops = Inl e"
proof (induction ops arbitrary: out)
  case Nil
  then show ?case by simp
next
  case (Cons token ops)
  show ?case
  proof (cases token)
    case (OPERATOR s)
    then have rest: "LEFT_BRACKET \<in> set ops \<or> RIGHT_BRACKET \<in> set ops"
      using Cons.prems by auto
    show ?thesis
    proof (cases "apply_operator tbl s out")
      case (Inl e)
      then show ?thesis
        using OPERATOR by simp
    next
      case (Inr out')
      then show ?thesis
        using OPERATOR Cons.IH [OF rest, of out'] by simp
    qed
  qed simp_all
qed

text \<open>
  Both loops of the scan only remove tokens from the stack, so the stack holds nothing
  but what was pushed: operators and left brackets.
\<close>

lemma reduce_stack:
  "reduce junk symbol out ops tbl = Inr (out', ops', tbl') \<Longrightarrow> set ops' \<subseteq> set ops"
proof (induction junk symbol out ops tbl rule: reduce.induct)
  case (1 junk symbol out tbl)
  then show ?case by simp
next
  case (2 junk symbol out op2 ops tbl)
  obtain c1 t1 where s1: "(c1, t1) = subscript junk tbl symbol"
    by (metis surj_pair)
  show ?case
  proof (cases op2)
    case (OPERATOR s2)
    obtain c2 t2 where s2: "(c2, t2) = subscript junk t1 s2"
      by (metis surj_pair)
    let ?reduces = "(leftAssociativity c1 \<and> precedence c1 \<le> precedence c2) \<or>
      (\<not> leftAssociativity c1 \<and> precedence c1 < precedence c2)"
    show ?thesis
    proof (cases ?reduces)
      case True
      then obtain b where ap: "apply_operator t2 s2 out = Inr b"
        and re: "reduce junk symbol b ops t2 = Inr (out', ops', tbl')"
        using "2.prems" OPERATOR s1 [symmetric] s2 [symmetric] by (auto split: sum.splits)
      have "set ops' \<subseteq> set ops"
        using "2.IH" [OF s1 OPERATOR s2 True ap re] .
      then show ?thesis by auto
    next
      case False
      then show ?thesis
        using "2.prems" OPERATOR s1 [symmetric] s2 [symmetric] by auto
    qed
  qed (use "2.prems" s1 [symmetric] in auto)
qed

lemma right_bracket_stack:
  "right_bracket tbl out ops = Inr (out', ops') \<Longrightarrow> set ops' \<subseteq> set ops"
  by (induction tbl out ops rule: right_bracket.induct) (auto split: sum.splits)

lemma step_stack:
  assumes "step junk t (out, ops, tbl) = Inr (out', ops', tbl')" and "\<forall>x\<in>set ops. pushed x"
  shows "\<forall>x\<in>set ops'. pushed x"
proof (cases t)
  case (OPERATOR c)
  then show ?thesis
    using assms reduce_stack [of junk c out ops tbl] by (fastforce split: sum.splits)
next
  case RIGHT_BRACKET
  then show ?thesis
    using assms right_bracket_stack [of tbl out ops] by (fastforce split: sum.splits)
qed (use assms in auto)

lemma scan_stack:
  "scan junk tokens (out, ops, tbl) = Inr (out', ops', tbl') \<Longrightarrow> \<forall>x\<in>set ops. pushed x
   \<Longrightarrow> \<forall>x\<in>set ops'. pushed x"
proof (induction tokens arbitrary: out ops tbl)
  case Nil
  then show ?case by simp
next
  case (Cons t tokens)
  then show ?case
    by (auto split: sum.splits dest!: step_stack)
qed


text \<open>
  \<^verbatim>\<open>operator[]\<close> changes the table only for a symbol that is no key: tokens whose
  operator symbols are all keys leave the table as it is.
\<close>

lemma subscript_known: "tbl c = Some k \<Longrightarrow> subscript junk tbl c = (k, tbl)"
  by (simp add: subscript_def)

lemma reduce_table:
  assumes "symbol \<in> dom tbl" and "\<forall>c. OPERATOR c \<in> set ops \<longrightarrow> c \<in> dom tbl"
    and "reduce junk symbol out ops tbl = Inr (out', ops', tbl')"
  shows "tbl' = tbl"
  using assms
proof (induction ops arbitrary: out)
  case Nil
  then show ?case by simp
next
  case (Cons op2 ops)
  obtain k1 where k1: "tbl symbol = Some k1"
    using Cons.prems(1) by auto
  show ?case
  proof (cases op2)
    case (OPERATOR s2)
    then obtain k2 where k2: "tbl s2 = Some k2"
      using Cons.prems(2) by auto
    have s1: "subscript junk tbl symbol = (k1, tbl)"
      using k1 by (rule subscript_known)
    have s2: "subscript junk tbl s2 = (k2, tbl)"
      using k2 by (rule subscript_known)
    show ?thesis
      using Cons OPERATOR by (auto simp add: s1 s2 split: if_splits sum.splits)
  qed (use Cons.prems k1 in \<open>auto simp add: subscript_known\<close>)
qed

lemma step_table:
  assumes "\<forall>c. t = OPERATOR c \<longrightarrow> c \<in> dom tbl" and "\<forall>c. OPERATOR c \<in> set ops \<longrightarrow> c \<in> dom tbl"
    and "step junk t (out, ops, tbl) = Inr (out', ops', tbl')"
  shows "tbl' = tbl \<and> (\<forall>c. OPERATOR c \<in> set ops' \<longrightarrow> c \<in> dom tbl)"
proof (cases t)
  case (OPERATOR c)
  then obtain ops'' where re: "reduce junk c out ops tbl = Inr (out', ops'', tbl')"
    and ops': "ops' = OPERATOR c # ops''"
    using assms(3) by (auto split: sum.splits)
  have "tbl' = tbl"
    using reduce_table [OF _ assms(2) re] assms(1) OPERATOR by simp
  moreover have "set ops'' \<subseteq> set ops"
    using reduce_stack [OF re] .
  ultimately show ?thesis
    using assms(1,2) OPERATOR ops' by auto
next
  case RIGHT_BRACKET
  then show ?thesis
    using assms right_bracket_stack [of tbl out ops] by (fastforce split: sum.splits)
qed (use assms in auto)

lemma scan_table:
  assumes "\<forall>c. OPERATOR c \<in> set tokens \<longrightarrow> c \<in> dom tbl"
    and "\<forall>c. OPERATOR c \<in> set ops \<longrightarrow> c \<in> dom tbl"
    and "scan junk tokens (out, ops, tbl) = Inr (out', ops', tbl')"
  shows "tbl' = tbl"
  using assms
proof (induction tokens arbitrary: out ops)
  case Nil
  then show ?case by simp
next
  case (Cons t tokens)
  from Cons.prems(3) obtain out1 ops1 tbl1
    where st: "step junk t (out, ops, tbl) = Inr (out1, ops1, tbl1)"
      and sc: "scan junk tokens (out1, ops1, tbl1) = Inr (out', ops', tbl')"
    by (auto split: sum.splits)
  have "tbl1 = tbl \<and> (\<forall>c. OPERATOR c \<in> set ops1 \<longrightarrow> c \<in> dom tbl)"
    using step_table [OF _ Cons.prems(2) st] Cons.prems(1) by simp
  then show ?case
    using Cons.IH [of ops1 out1] Cons.prems(1) sc by simp
qed

lemma expression_table:
  assumes "\<forall>c. OPERATOR c \<in> set tokens \<longrightarrow> c \<in> dom tbl"
    and "expression junk tbl tokens = Inr (v, tbl')"
  shows "tbl' = tbl"
proof -
  from assms(2) obtain out ops where "scan junk tokens ([], [], tbl) = Inr (out, ops, tbl')"
    by (auto simp add: expression_def split: sum.splits list.splits)
  then show ?thesis
    using scan_table [OF assms(1), of "[]"] by simp
qed

text \<open>Spaces produce no token.\<close>

lemma tokenise_loop_spaces: "tokenise_loop (replicate n CHR '' '') tokens = Inr tokens"
  by (induction n) simp_all

section \<open>Evaluation of concrete inputs\<close>

lemmas tokenise_eval =
  tokenise_def extract_double_def read_unsigned_def read_sign_def read_digits_def
  read_fraction_def read_exponent_def scaled_def isdigit_def decimal_def digit_value_def

lemmas expression_eval =
  expression_def opContracts_def subscript_def apply_operator_def pop_operands_def
  evaluate_def pow_def

text \<open>
  C1 (the line \<open>2+3*4\<close> is expected to give 14). The multiplication stays on the
  stack above the addition, as precedence demands, but the operands are taken from the
  front of a first-in first-out queue: the loop after the scan multiplies 2 by 3, puts
  6 behind 4, and then adds 4 and 6. The program prints 10.
\<close>

theorem precedence_line_yields_10:
  "tokenise ''2+3*4'' =
     Inr [NUMBER 2, OPERATOR CHR ''+'', NUMBER 3, OPERATOR CHR ''*'', NUMBER 4] \<and>
   scan junk [NUMBER 2, OPERATOR CHR ''+'', NUMBER 3, OPERATOR CHR ''*'', NUMBER 4]
       ([], [], opContracts) =
     Inr ([2, 3, 4], [OPERATOR CHR ''*'', OPERATOR CHR ''+''], opContracts) \<and>
   remaining opContracts [2, 3, 4] [OPERATOR CHR ''*'', OPERATOR CHR ''+''] = Inr [10] \<and>
   main_line junk opContracts ''2+3*4'' = Some (Inr (10, opContracts))"
proof -
  have t: "tokenise ''2+3*4'' =
      Inr [NUMBER 2, OPERATOR CHR ''+'', NUMBER 3, OPERATOR CHR ''*'', NUMBER 4]"
    by (simp add: tokenise_eval)
  have s: "scan junk [NUMBER 2, OPERATOR CHR ''+'', NUMBER 3, OPERATOR CHR ''*'', NUMBER 4]
      ([], [], opContracts) =
      Inr ([2, 3, 4], [OPERATOR CHR ''*'', OPERATOR CHR ''+''], opContracts)"
    by (simp add: expression_eval)
  have r: "remaining opContracts [2, 3, 4] [OPERATOR CHR ''*'', OPERATOR CHR ''+''] = Inr [10]"
    by (simp add: expression_eval)
  have e: "expression junk opContracts
      [NUMBER 2, OPERATOR CHR ''+'', NUMBER 3, OPERATOR CHR ''*'', NUMBER 4] =
      Inr (10, opContracts)"
    unfolding expression_def s by (simp add: r del: remaining.simps)
  have m: "main_line junk opContracts ''2+3*4'' = Some (Inr (10, opContracts))"
    by (simp add: main_line_def t e)
  show ?thesis
    by (intro conjI t s r m)
qed

text \<open>
  C2 (the lines \<open>(1+2)*3\<close> and \<open>2-3*4\<close> are expected to give 9 and -10). The first
  gives 9. On the second the queue holds 2, 3, 4 when the operators are applied: 2 * 3
  is put behind 4 and the subtraction computes 4 - 6. The program prints -2, and it
  does so for the fully parenthesised \<open>(2-(3*4))\<close> as well.
\<close>

theorem subtraction_line_yields_minus_2:
  "main_line junk opContracts ''(1+2)*3'' = Some (Inr (9, opContracts)) \<and>
   tokenise ''2-3*4'' =
     Inr [NUMBER 2, OPERATOR CHR ''-'', NUMBER 3, OPERATOR CHR ''*'', NUMBER 4] \<and>
   expression junk opContracts
       [NUMBER 2, OPERATOR CHR ''-'', NUMBER 3, OPERATOR CHR ''*'', NUMBER 4] =
     Inr (- 2, opContracts) \<and>
   main_line junk opContracts ''2-3*4'' = Some (Inr (- 2, opContracts)) \<and>
   main_line junk opContracts ''(2-(3*4))'' = Some (Inr (- 2, opContracts))"
proof -
  have t1: "tokenise ''(1+2)*3'' =
      Inr [LEFT_BRACKET, NUMBER 1, OPERATOR CHR ''+'', NUMBER 2, RIGHT_BRACKET,
           OPERATOR CHR ''*'', NUMBER 3]"
    by (simp add: tokenise_eval)
  have e1: "expression junk opContracts
      [LEFT_BRACKET, NUMBER 1, OPERATOR CHR ''+'', NUMBER 2, RIGHT_BRACKET,
       OPERATOR CHR ''*'', NUMBER 3] = Inr (9, opContracts)"
    by (simp add: expression_eval)
  have m1: "main_line junk opContracts ''(1+2)*3'' = Some (Inr (9, opContracts))"
    by (simp add: main_line_def t1 e1)
  have t2: "tokenise ''2-3*4'' =
      Inr [NUMBER 2, OPERATOR CHR ''-'', NUMBER 3, OPERATOR CHR ''*'', NUMBER 4]"
    by (simp add: tokenise_eval)
  have e2: "expression junk opContracts
      [NUMBER 2, OPERATOR CHR ''-'', NUMBER 3, OPERATOR CHR ''*'', NUMBER 4] =
      Inr (- 2, opContracts)"
    by (simp add: expression_eval)
  have m2: "main_line junk opContracts ''2-3*4'' = Some (Inr (- 2, opContracts))"
    by (simp add: main_line_def t2 e2)
  have t3: "tokenise ''(2-(3*4))'' =
      Inr [LEFT_BRACKET, NUMBER 2, OPERATOR CHR ''-'', LEFT_BRACKET, NUMBER 3,
           OPERATOR CHR ''*'', NUMBER 4, RIGHT_BRACKET, RIGHT_BRACKET]"
    by (simp add: tokenise_eval)
  have e3: "expression junk opContracts
      [LEFT_BRACKET, NUMBER 2, OPERATOR CHR ''-'', LEFT_BRACKET, NUMBER 3,
       OPERATOR CHR ''*'', NUMBER 4, RIGHT_BRACKET, RIGHT_BRACKET] = Inr (- 2, opContracts)"
    by (simp add: expression_eval)
  have m3: "main_line junk opContracts ''(2-(3*4))'' = Some (Inr (- 2, opContracts))"
    by (simp add: main_line_def t3 e3)
  show ?thesis
    by (intro conjI m1 t2 e2 m2 m3)
qed

text \<open>
  C3 (the line \<open>2^3^2\<close> is expected to give 512). The second \<open>^\<close> is pushed above
  the first without a reduction, since 3 < 3 fails. The loop after the scan then takes
  2 and 3 from the front of the queue, puts 8 behind the last 2, and computes
  pow(2, 8). The program prints 256.
\<close>

theorem power_chain_yields_256:
  "tokenise ''2^3^2'' =
     Inr [NUMBER 2, OPERATOR CHR ''^'', NUMBER 3, OPERATOR CHR ''^'', NUMBER 2] \<and>
   scan junk [NUMBER 2, OPERATOR CHR ''^'', NUMBER 3, OPERATOR CHR ''^'', NUMBER 2]
       ([], [], opContracts) =
     Inr ([2, 3, 2], [OPERATOR CHR ''^'', OPERATOR CHR ''^''], opContracts) \<and>
   remaining opContracts [2, 3, 2] [OPERATOR CHR ''^'', OPERATOR CHR ''^''] = Inr [256] \<and>
   main_line junk opContracts ''2^3^2'' = Some (Inr (256, opContracts))"
proof -
  have t: "tokenise ''2^3^2'' =
      Inr [NUMBER 2, OPERATOR CHR ''^'', NUMBER 3, OPERATOR CHR ''^'', NUMBER 2]"
    by (simp add: tokenise_eval)
  have s: "scan junk [NUMBER 2, OPERATOR CHR ''^'', NUMBER 3, OPERATOR CHR ''^'', NUMBER 2]
      ([], [], opContracts) =
      Inr ([2, 3, 2], [OPERATOR CHR ''^'', OPERATOR CHR ''^''], opContracts)"
    by (simp add: expression_eval)
  have r: "remaining opContracts [2, 3, 2] [OPERATOR CHR ''^'', OPERATOR CHR ''^''] = Inr [256]"
    by (simp add: expression_eval)
  have e: "expression junk opContracts
      [NUMBER 2, OPERATOR CHR ''^'', NUMBER 3, OPERATOR CHR ''^'', NUMBER 2] =
      Inr (256, opContracts)"
    unfolding expression_def s by (simp add: r del: remaining.simps)
  have m: "main_line junk opContracts ''2^3^2'' = Some (Inr (256, opContracts))"
    by (simp add: main_line_def t e)
  show ?thesis
    by (intro conjI t s r m)
qed

text \<open>
  C4 (an operator applied to fewer than two operands is expected to end the run with
  "Mismatched operands"). Only the loop after the scan checks the size of the queue:
  the line \<open>*\<close> ends that way. The reduction inside the scan (line \<open>**\<close>) and the
  one of a right bracket (line \<open>(*)\<close>) call \<^verbatim>\<open>front()\<close> on an empty queue.
\<close>

theorem unguarded_pops_on_short_queue:
  "tokenise ''**'' = Inr [OPERATOR CHR ''*'', OPERATOR CHR ''*''] \<and>
   expression junk opContracts [OPERATOR CHR ''*'', OPERATOR CHR ''*''] = Inl UndefinedBehaviour \<and>
   tokenise ''(*)'' = Inr [LEFT_BRACKET, OPERATOR CHR ''*'', RIGHT_BRACKET] \<and>
   expression junk opContracts [LEFT_BRACKET, OPERATOR CHR ''*'', RIGHT_BRACKET] =
     Inl UndefinedBehaviour \<and>
   tokenise ''*'' = Inr [OPERATOR CHR ''*''] \<and>
   expression junk opContracts [OPERATOR CHR ''*''] = Inl InsufficientOperands"
  by (simp add: tokenise_eval expression_eval)

text \<open>
  C5 (the table is expected to hold the five contracts and never to change). It starts
  with the five keys. While the line \<open>(3%2)\<close> is scanned, the operator token \<open>%\<close>
  meets a stack that is not empty, \<^verbatim>\<open>opContracts[token.symbol]\<close> finds no contract
  and inserts a default-constructed one: after the third token the table has a sixth
  key.
\<close>

theorem subscript_inserts_into_opContracts:
  "dom opContracts = {CHR ''+'', CHR ''-'', CHR ''*'', CHR ''/'', CHR ''^''} \<and>
   tokenise ''(3%2)'' =
     Inr [LEFT_BRACKET, NUMBER 3, OPERATOR CHR ''%'', NUMBER 2, RIGHT_BRACKET] \<and>
   scan junk [LEFT_BRACKET, NUMBER 3, OPERATOR CHR ''%''] ([], [], opContracts) =
     Inr ([3], [OPERATOR CHR ''%'', LEFT_BRACKET], opContracts(CHR ''%'' \<mapsto> junk CHR ''%'')) \<and>
   dom (opContracts(CHR ''%'' \<mapsto> junk CHR ''%'')) = insert CHR ''%'' (dom opContracts) \<and>
   CHR ''%'' \<notin> dom opContracts"
proof -
  have d: "dom opContracts = {CHR ''+'', CHR ''-'', CHR ''*'', CHR ''/'', CHR ''^''}"
    by (auto simp add: opContracts_def)
  have t: "tokenise ''(3%2)'' =
      Inr [LEFT_BRACKET, NUMBER 3, OPERATOR CHR ''%'', NUMBER 2, RIGHT_BRACKET]"
    by (simp add: tokenise_eval)
  have k: "opContracts CHR ''%'' = None"
    by (simp add: opContracts_def)
  have s: "scan junk [LEFT_BRACKET, NUMBER 3, OPERATOR CHR ''%''] ([], [], opContracts) =
      Inr ([3], [OPERATOR CHR ''%'', LEFT_BRACKET], opContracts(CHR ''%'' \<mapsto> junk CHR ''%''))"
    by (simp add: subscript_def k)
  have n: "CHR ''%'' \<notin> dom opContracts"
    by (simp add: d)
  show ?thesis
    using d t s n by simp
qed

text \<open>
  C6 (an operator symbol that is no key of the table is expected to end the run with
  "Operator c is not supported" when it is applied). The line \<open>3%2\<close> does. On the
  line \<open>(3%2)\<close> the scan has inserted a contract for \<open>%\<close> before the operator is
  applied, so \<^verbatim>\<open>find\<close> in \<open>evaluate\<close> succeeds and the run calls the pointer of
  the default-constructed contract: it never reports the unsupported operator.
\<close>

theorem unsupported_operator_found_after_insertion:
  "main_line junk opContracts ''3%2'' = Some (Inl (UnsupportedOperator CHR ''%'')) \<and>
   tokenise ''(3%2)'' =
     Inr [LEFT_BRACKET, NUMBER 3, OPERATOR CHR ''%'', NUMBER 2, RIGHT_BRACKET] \<and>
   expression junk opContracts
       [LEFT_BRACKET, NUMBER 3, OPERATOR CHR ''%'', NUMBER 2, RIGHT_BRACKET] =
     (case func (junk CHR ''%'') of
        None \<Rightarrow> Inl UndefinedBehaviour
      | Some f \<Rightarrow> Inr (f 3 2, opContracts(CHR ''%'' \<mapsto> junk CHR ''%''))) \<and>
   main_line junk opContracts ''(3%2)'' \<noteq> Some (Inl (UnsupportedOperator CHR ''%''))"
proof -
  have t1: "tokenise ''3%2'' = Inr [NUMBER 3, OPERATOR CHR ''%'', NUMBER 2]"
    by (simp add: tokenise_eval)
  have e1: "expression junk opContracts [NUMBER 3, OPERATOR CHR ''%'', NUMBER 2] =
      Inl (UnsupportedOperator CHR ''%'')"
    by (simp add: expression_eval)
  have m1: "main_line junk opContracts ''3%2'' = Some (Inl (UnsupportedOperator CHR ''%''))"
    by (simp add: main_line_def t1 e1)
  have t2: "tokenise ''(3%2)'' =
      Inr [LEFT_BRACKET, NUMBER 3, OPERATOR CHR ''%'', NUMBER 2, RIGHT_BRACKET]"
    by (simp add: tokenise_eval)
  have e2: "expression junk opContracts
      [LEFT_BRACKET, NUMBER 3, OPERATOR CHR ''%'', NUMBER 2, RIGHT_BRACKET] =
      (case func (junk CHR ''%'') of
         None \<Rightarrow> Inl UndefinedBehaviour
       | Some f \<Rightarrow> Inr (f 3 2, opContracts(CHR ''%'' \<mapsto> junk CHR ''%'')))"
    by (simp add: expression_eval split: option.splits)
  have m2: "main_line junk opContracts ''(3%2)'' \<noteq> Some (Inl (UnsupportedOperator CHR ''%''))"
    by (simp add: main_line_def t2 e2 split: option.splits)
  show ?thesis
    by (intro conjI m1 t2 e2 m2)
qed

text \<open>
  C7. The lines \<open>(1+2\<close> and \<open>1+2)\<close> both end with "Mismatched parenthesis". A right
  bracket that reaches the bottom of the stack ends the run so; over any stack without
  a left bracket it never succeeds, and ends with the mismatch unless the application
  of an operator ended the run before. After the scan, a bracket on top of the stack
  ends the run with the mismatch, and no stack that holds a bracket lets the run
  succeed.
\<close>

theorem mismatched_parenthesis:
  "main_line junk opContracts ''(1+2'' = Some (Inl MismatchedParenthesis) \<and>
   main_line junk opContracts ''1+2)'' = Some (Inl MismatchedParenthesis) \<and>
   right_bracket tbl out [] = Inl MismatchedParenthesis \<and>
   (\<forall>ops. LEFT_BRACKET \<notin> set ops \<longrightarrow>
      (\<exists>e. right_bracket tbl out ops = Inl e \<and>
           (e = MismatchedParenthesis \<or> e = UndefinedBehaviour \<or> (\<exists>c. e = UnsupportedOperator c)))) \<and>
   remaining tbl out (LEFT_BRACKET # ops') = Inl MismatchedParenthesis \<and>
   remaining tbl out (RIGHT_BRACKET # ops') = Inl MismatchedParenthesis \<and>
   (\<forall>ops. LEFT_BRACKET \<in> set ops \<or> RIGHT_BRACKET \<in> set ops \<longrightarrow>
      (\<exists>e. remaining tbl out ops = Inl e))"
proof -
  have t1: "tokenise ''(1+2'' = Inr [LEFT_BRACKET, NUMBER 1, OPERATOR CHR ''+'', NUMBER 2]"
    by (simp add: tokenise_eval)
  have e1: "expression junk opContracts [LEFT_BRACKET, NUMBER 1, OPERATOR CHR ''+'', NUMBER 2] =
      Inl MismatchedParenthesis"
    by (simp add: expression_eval)
  have m1: "main_line junk opContracts ''(1+2'' = Some (Inl MismatchedParenthesis)"
    by (simp add: main_line_def t1 e1)
  have t2: "tokenise ''1+2)'' = Inr [NUMBER 1, OPERATOR CHR ''+'', NUMBER 2, RIGHT_BRACKET]"
    by (simp add: tokenise_eval)
  have e2: "expression junk opContracts [NUMBER 1, OPERATOR CHR ''+'', NUMBER 2, RIGHT_BRACKET] =
      Inl MismatchedParenthesis"
    by (simp add: expression_eval)
  have m2: "main_line junk opContracts ''1+2)'' = Some (Inl MismatchedParenthesis)"
    by (simp add: main_line_def t2 e2)
  show ?thesis
    using m1 m2 right_bracket_without_left [of _ tbl out] remaining_with_bracket [of _ tbl out]
    by simp
qed

text \<open>The two implications of C7 at concrete stacks.\<close>

theorem mismatched_parenthesis_witness:
  "LEFT_BRACKET \<notin> set [OPERATOR CHR ''+''] \<and>
   right_bracket opContracts [1, 2] [OPERATOR CHR ''+''] = Inl MismatchedParenthesis \<and>
   LEFT_BRACKET \<in> set [OPERATOR CHR ''+'', LEFT_BRACKET] \<and>
   remaining opContracts [1, 2] [OPERATOR CHR ''+'', LEFT_BRACKET] = Inl MismatchedParenthesis"
proof -
  note inst = mismatched_parenthesis [of no_junk opContracts "[1, 2]" "[]"]
  have a: "LEFT_BRACKET \<notin> set [OPERATOR CHR ''+'']"
    by simp
  have b: "LEFT_BRACKET \<in> set [OPERATOR CHR ''+'', LEFT_BRACKET]"
    by simp
  from inst a have "\<exists>e. right_bracket opContracts [1, 2] [OPERATOR CHR ''+''] = Inl e"
    by blast
  moreover from inst b have "\<exists>e. remaining opContracts [1, 2] [OPERATOR CHR ''+'', LEFT_BRACKET] = Inl e"
    by blast
  ultimately show ?thesis
    by (simp add: expression_eval)
qed

text \<open>
  C8. In \<open>tokenise\<close> a \<open>+\<close> or \<open>-\<close> starts a number exactly when no token has been
  pushed yet or the last token pushed is no number: then a literal is extracted
  starting at the sign itself, and a failed extraction ends the run with "Invalid
  token"; otherwise the sign is an operator token. So \<open>3+-2\<close> is 3, the operator
  \<open>+\<close> and the number -2.
\<close>

theorem sign_starts_literal:
  "(c = CHR ''+'' \<or> c = CHR ''-'' \<longrightarrow>
      tokenise_loop (c # rest) tokens =
        (if tokens = [] \<or> \<not> is_NUMBER (last tokens)
         then (case extract_double (c # rest) of
                 (None, rest') \<Rightarrow> Inl InvalidNumber
               | (Some v, rest') \<Rightarrow> tokenise_loop rest' (tokens @ [NUMBER v]))
         else tokenise_loop rest (tokens @ [OPERATOR c]))) \<and>
   tokenise ''3+-2'' = Inr [NUMBER 3, OPERATOR CHR ''+'', NUMBER (- 2)] \<and>
   tokenise ''-3+5'' = Inr [NUMBER (- 3), OPERATOR CHR ''+'', NUMBER 5] \<and>
   tokenise ''3-2'' = Inr [NUMBER 3, OPERATOR CHR ''-'', NUMBER 2] \<and>
   tokenise ''(+2)'' = Inr [LEFT_BRACKET, NUMBER 2, RIGHT_BRACKET] \<and>
   tokenise ''3+-'' = Inl InvalidNumber \<and>
   tokenise ''- 3'' = Inl InvalidNumber"
proof -
  have g: "c = CHR ''+'' \<or> c = CHR ''-'' \<longrightarrow>
      tokenise_loop (c # rest) tokens =
        (if tokens = [] \<or> \<not> is_NUMBER (last tokens)
         then (case extract_double (c # rest) of
                 (None, rest') \<Rightarrow> Inl InvalidNumber
               | (Some v, rest') \<Rightarrow> tokenise_loop rest' (tokens @ [NUMBER v]))
         else tokenise_loop rest (tokens @ [OPERATOR c]))"
    by (auto simp add: isdigit_def)
  have x1: "tokenise ''3+-2'' = Inr [NUMBER 3, OPERATOR CHR ''+'', NUMBER (- 2)]"
    by (simp add: tokenise_eval)
  have x2: "tokenise ''-3+5'' = Inr [NUMBER (- 3), OPERATOR CHR ''+'', NUMBER 5]"
    by (simp add: tokenise_eval)
  have x3: "tokenise ''3-2'' = Inr [NUMBER 3, OPERATOR CHR ''-'', NUMBER 2]"
    by (simp add: tokenise_eval)
  have x4: "tokenise ''(+2)'' = Inr [LEFT_BRACKET, NUMBER 2, RIGHT_BRACKET]"
    by (simp add: tokenise_eval)
  have x5: "tokenise ''3+-'' = Inl InvalidNumber"
    by (simp add: tokenise_eval)
  have x6: "tokenise ''- 3'' = Inl InvalidNumber"
    by (simp add: tokenise_eval)
  show ?thesis
    by (intro conjI g x1 x2 x3 x4 x5 x6)
qed

text \<open>The rule of C8 at the sign of \<open>-2\<close> after the tokens of \<open>3+\<close>.\<close>

theorem sign_starts_literal_witness:
  "(CHR ''-'' = CHR ''+'' \<or> CHR ''-'' = CHR ''-'') \<and>
   tokenise_loop ''-2'' [NUMBER 3, OPERATOR CHR ''+''] =
     Inr [NUMBER 3, OPERATOR CHR ''+'', NUMBER (- 2)]"
  using sign_starts_literal [of "CHR ''-''" "''2''" "[NUMBER 3, OPERATOR CHR ''+'']"]
  by (simp add: tokenise_eval)

text \<open>
  C9. A line of one or more spaces is not empty, so \<open>main\<close> does not skip it;
  \<open>tokenise\<close> returns no token; \<open>expression\<close> then returns \<^verbatim>\<open>output.front()\<close> of
  an empty queue, which is neither a value nor one of the program's errors.
\<close>

theorem line_of_spaces:
  "tokenise (replicate (Suc n) CHR '' '') = Inr [] \<and>
   expression junk tbl [] = Inl UndefinedBehaviour \<and>
   main_line junk tbl (replicate (Suc n) CHR '' '') = Some (Inl UndefinedBehaviour) \<and>
   main_line junk tbl [] = None"
proof -
  have t: "tokenise (replicate (Suc n) CHR '' '') = Inr []"
    unfolding tokenise_def by (rule tokenise_loop_spaces)
  have e: "expression junk tbl [] = Inl UndefinedBehaviour"
    by (simp add: expression_def)
  show ?thesis
    using t e by (simp add: main_line_def)
qed

text \<open>
  C10. After a right bracket the previous token is no number, so a sign starts a
  literal: the line \<open>(1+2)-3\<close> is tokenised as the bracketed sum followed by the
  number -3, with no operator between them, and \<open>expression\<close> returns the front of
  the queue, 3, while -3 is left behind it.
\<close>

theorem sign_after_right_bracket:
  "tokenise ''(1+2)-3'' =
     Inr [LEFT_BRACKET, NUMBER 1, OPERATOR CHR ''+'', NUMBER 2, RIGHT_BRACKET, NUMBER (- 3)] \<and>
   scan junk [LEFT_BRACKET, NUMBER 1, OPERATOR CHR ''+'', NUMBER 2, RIGHT_BRACKET, NUMBER (- 3)]
       ([], [], opContracts) = Inr ([3, - 3], [], opContracts) \<and>
   expression junk opContracts
       [LEFT_BRACKET, NUMBER 1, OPERATOR CHR ''+'', NUMBER 2, RIGHT_BRACKET, NUMBER (- 3)] =
     Inr (3, opContracts) \<and>
   main_line junk opContracts ''(1+2)-3'' = Some (Inr (3, opContracts))"
proof -
  have t: "tokenise ''(1+2)-3'' =
      Inr [LEFT_BRACKET, NUMBER 1, OPERATOR CHR ''+'', NUMBER 2, RIGHT_BRACKET, NUMBER (- 3)]"
    by (simp add: tokenise_eval)
  have s: "scan junk [LEFT_BRACKET, NUMBER 1, OPERATOR CHR ''+'', NUMBER 2, RIGHT_BRACKET, NUMBER (- 3)]
      ([], [], opContracts) = Inr ([3, - 3], [], opContracts)"
    by (simp add: expression_eval)
  have e: "expression junk opContracts
      [LEFT_BRACKET, NUMBER 1, OPERATOR CHR ''+'', NUMBER 2, RIGHT_BRACKET, NUMBER (- 3)] =
      Inr (3, opContracts)"
    unfolding expression_def s by simp
  have m: "main_line junk opContracts ''(1+2)-3'' = Some (Inr (3, opContracts))"
    by (simp add: main_line_def t e)
  show ?thesis
    by (intro conjI t s e m)
qed

end
